theory Spec2Isabelle
  imports Complex_Main "HOL-Library.Multiset"
begin

section \<open>JavaScript values used by the server\<close>

text \<open>
  Strings are lists of 8-bit characters (code units in the Latin-1 range).  A value that
  may be \<open>null\<close> or \<open>undefined\<close> is an \<open>option\<close>.  A string is truthy when it is
  present and not empty.
\<close>

definition truthy :: "string option \<Rightarrow> bool" where
  "truthy v = (case v of None \<Rightarrow> False | Some s \<Rightarrow> s \<noteq> [])"

text \<open>\<open>a || b\<close> on possibly missing strings: the left operand when it is truthy.\<close>

definition js_or :: "string option \<Rightarrow> string option \<Rightarrow> string option" where
  "js_or a b = (if truthy a then a else b)"

text \<open>\<open>xs.includes(v)\<close> on a string array: a missing value is never an element.\<close>

definition array_includes :: "string list \<Rightarrow> string option \<Rightarrow> bool" where
  "array_includes xs v = (case v of None \<Rightarrow> False | Some s \<Rightarrow> s \<in> set xs)"

section \<open>Data model (shared schema)\<close>

text \<open>
  The \<open>source\<close> column is untyped JSON; the provider sends \<open>{id: string | null, name}\<close>.
  Both fields are optional here and the readers below use \<open>source?.name\<close>, so the
  source itself may be missing too.
\<close>

record Source =
  source_id :: "string option"
  source_name :: "string option"

text \<open>Dates are milliseconds since the epoch (\<open>getTime()\<close> of a valid \<open>Date\<close>).\<close>

record InsertArticle =
  title :: string
  description :: "string option"
  content :: "string option"
  url :: string
  urlToImage :: "string option"
  publishedAt :: int
  source :: "Source option"
  author :: "string option"
  category :: "string option"
  country :: "string option"
  aiSummary :: "string option"

record Article = InsertArticle +
  id' :: string
  createdAt :: "int option"

text \<open>
  \<open>Partial<Article>\<close>: every field may be left out (\<open>None\<close>) or carry a new value.
\<close>

record PartialArticle =
  upd_title :: "string option"
  upd_description :: "string option option"
  upd_content :: "string option option"
  upd_url :: "string option"
  upd_urlToImage :: "string option option"
  upd_publishedAt :: "int option"
  upd_source :: "Source option option"
  upd_author :: "string option option"
  upd_category :: "string option option"
  upd_country :: "string option option"
  upd_aiSummary :: "string option option"
  upd_id :: "string option"
  upd_createdAt :: "int option option"

definition no_updates :: PartialArticle where
  "no_updates = \<lparr>upd_title = None, upd_description = None, upd_content = None,
     upd_url = None, upd_urlToImage = None, upd_publishedAt = None, upd_source = None,
     upd_author = None, upd_category = None, upd_country = None, upd_aiSummary = None,
     upd_id = None, upd_createdAt = None\<rparr>"

section \<open>MemStorage: the article map\<close>

text \<open>
  A JavaScript \<open>Map\<close> iterates in insertion order, and \<open>set\<close> on a key that is already
  there replaces the value in place.  The map is therefore an association list; of the
  three maps of \<open>MemStorage\<close> only \<open>articles\<close> is touched by the article methods.
  \<open>URLSearchParams\<close> built by \<open>set\<close> alone behaves the same way and shares the
  two functions.
\<close>

type_synonym articles = "(string \<times> Article) list"

fun map_get :: "('k \<times> 'v) list \<Rightarrow> 'k \<Rightarrow> 'v option" where
  "map_get [] k = None"
| "map_get ((k', v) # m) k = (if k' = k then Some v else map_get m k)"

fun map_set :: "'k \<Rightarrow> 'v \<Rightarrow> ('k \<times> 'v) list \<Rightarrow> ('k \<times> 'v) list" where
  "map_set k v [] = [(k, v)]"
| "map_set k v ((k', v') # m) = (if k' = k then (k, v) # m else (k', v') # map_set k v m)"

definition map_values :: "('k \<times> 'v) list \<Rightarrow> 'v list" where
  "map_values m = map snd m"

text \<open>
  \<open>Array.prototype.sort(cmp)\<close> is a stable sort: an element moves in front of another
  one only when the comparator puts it strictly before.  Insertion from the right gives
  exactly that order.
\<close>

fun insert_sorted :: "('a \<Rightarrow> 'a \<Rightarrow> int) \<Rightarrow> 'a \<Rightarrow> 'a list \<Rightarrow> 'a list" where
  "insert_sorted cmp x [] = [x]"
| "insert_sorted cmp x (y # ys) =
     (if cmp x y \<le> 0 then x # y # ys else y # insert_sorted cmp x ys)"

fun array_sort :: "('a \<Rightarrow> 'a \<Rightarrow> int) \<Rightarrow> 'a list \<Rightarrow> 'a list" where
  "array_sort cmp [] = []"
| "array_sort cmp (x # xs) = insert_sorted cmp x (array_sort cmp xs)"

record ArticleFilters =
  f_country :: "string option"
  f_category :: "string option"
  f_sources :: "string list option"

definition by_published_desc :: "Article \<Rightarrow> Article \<Rightarrow> int" where
  "by_published_desc a b = publishedAt b - publishedAt a"

text \<open>The key the sources filter looks up: \<open>source?.name || source?.id\<close>.\<close>

definition source_key :: "Article \<Rightarrow> string option" where
  "source_key a =
     js_or (case source a of None \<Rightarrow> None | Some s \<Rightarrow> source_name s)
           (case source a of None \<Rightarrow> None | Some s \<Rightarrow> source_id s)"

definition getArticles :: "articles \<Rightarrow> ArticleFilters option \<Rightarrow> Article list" where
  "getArticles m filters =
     (let articles0 = map_values m;
          articles1 =
            (case filters of
               Some f \<Rightarrow>
                 if truthy (f_country f)
                 then filter (\<lambda>a. country a = f_country f) articles0 else articles0
             | None \<Rightarrow> articles0);
          articles2 =
            (case filters of
               Some f \<Rightarrow>
                 if truthy (f_category f)
                 then filter (\<lambda>a. category a = f_category f) articles1 else articles1
             | None \<Rightarrow> articles1);
          articles3 =
            (case filters of
               Some f \<Rightarrow>
                 (case f_sources f of
                    Some srcs \<Rightarrow>
                      if length srcs > 0
                      then filter (\<lambda>a. array_includes srcs (source_key a)) articles2
                      else articles2
                  | None \<Rightarrow> articles2)
             | None \<Rightarrow> articles2)
      in array_sort by_published_desc articles3)"

text \<open>
  \<open>createArticle\<close>: \<open>uuid\<close> is what \<open>randomUUID()\<close> returned and \<open>now\<close> what
  \<open>new Date()\<close> read.  The result is the stored article and the new map.
\<close>

definition createArticle ::
  "string \<Rightarrow> int \<Rightarrow> articles \<Rightarrow> InsertArticle \<Rightarrow> Article \<times> articles" where
  "createArticle uuid now m ins =
     (let article = \<lparr>title = title ins, description = description ins,
            content = content ins, url = url ins, urlToImage = urlToImage ins,
            publishedAt = publishedAt ins, source = source ins, author = author ins,
            category = category ins, country = country ins, aiSummary = aiSummary ins,
            id' = uuid, createdAt = Some now\<rparr>
      in (article, map_set uuid article m))"

datatype storage_error = ArticleNotFound string

definition spread :: "'a option \<Rightarrow> 'a \<Rightarrow> 'a" where
  "spread u old = (case u of None \<Rightarrow> old | Some v \<Rightarrow> v)"

definition merge_updates :: "Article \<Rightarrow> PartialArticle \<Rightarrow> Article" where
  "merge_updates existing updates =
     \<lparr>title = spread (upd_title updates) (title existing),
      description = spread (upd_description updates) (description existing),
      content = spread (upd_content updates) (content existing),
      url = spread (upd_url updates) (url existing),
      urlToImage = spread (upd_urlToImage updates) (urlToImage existing),
      publishedAt = spread (upd_publishedAt updates) (publishedAt existing),
      source = spread (upd_source updates) (source existing),
      author = spread (upd_author updates) (author existing),
      category = spread (upd_category updates) (category existing),
      country = spread (upd_country updates) (country existing),
      aiSummary = spread (upd_aiSummary updates) (aiSummary existing),
      id' = spread (upd_id updates) (id' existing),
      createdAt = spread (upd_createdAt updates) (createdAt existing)\<rparr>"

definition updateArticle ::
  "articles \<Rightarrow> string \<Rightarrow> PartialArticle \<Rightarrow> storage_error + (Article \<times> articles)" where
  "updateArticle m i updates =
     (case map_get m i of
        None \<Rightarrow> Inl (ArticleNotFound i)
      | Some existing \<Rightarrow>
          (let updated = merge_updates existing updates
           in Inr (updated, map_set i updated m)))"


text \<open>
  The invariant of the article map: keys are distinct (as in any \<open>Map\<close>) and every
  record is stored under its own id.
\<close>

definition store_ok :: "articles \<Rightarrow> bool" where
  "store_ok m = (distinct (map fst m) \<and> list_all (\<lambda>(k, a). id' a = k) m)"

text \<open>
  The three filters of \<open>getArticles\<close>, as the code applies them, as one predicate on
  an article: what the method selects.  Its sources part looks up \<open>source_key\<close>.
\<close>

definition passes_filters :: "ArticleFilters option \<Rightarrow> Article \<Rightarrow> bool" where
  "passes_filters filters a =
     (case filters of
        None \<Rightarrow> True
      | Some f \<Rightarrow>
          (if truthy (f_country f) then country a = f_country f else True) \<and>
          (if truthy (f_category f) then category a = f_category f else True) \<and>
          (case f_sources f of
             None \<Rightarrow> True
           | Some srcs \<Rightarrow> if srcs = [] then True else array_includes srcs (source_key a)))"

text \<open>
  Matching as the specification of the store words it: exact equality on \<open>country\<close> and
  \<open>category\<close> when present, and membership in \<open>sources\<close> of the article's
  \<open>source.name\<close> or of its \<open>source.id\<close>, either match counting.  A filter field is
  present when it is given and not empty.
\<close>

definition spec_matches :: "ArticleFilters option \<Rightarrow> Article \<Rightarrow> bool" where
  "spec_matches filters a =
     (case filters of
        None \<Rightarrow> True
      | Some f \<Rightarrow>
          (case f_country f of
             None \<Rightarrow> True
           | Some c \<Rightarrow> if c = [] then True else country a = Some c) \<and>
          (case f_category f of
             None \<Rightarrow> True
           | Some c \<Rightarrow> if c = [] then True else category a = Some c) \<and>
          (case f_sources f of
             None \<Rightarrow> True
           | Some srcs \<Rightarrow>
               if srcs = [] then True
               else (case source a of
                       None \<Rightarrow> False
                     | Some s \<Rightarrow>
                         (case source_name s of None \<Rightarrow> False | Some n \<Rightarrow> n \<in> set srcs) \<or>
                         (case source_id s of None \<Rightarrow> False | Some i \<Rightarrow> i \<in> set srcs))))"

section \<open>String primitives\<close>

text \<open>
  \<open>trim()\<close> removes white space and line terminators at both ends; in the 8-bit range
  these are the code units 9 to 13, 32 and 160.
\<close>

definition is_space :: "char \<Rightarrow> bool" where
  "is_space c = (let n = of_char c :: nat in (9 \<le> n \<and> n \<le> 13) \<or> n = 32 \<or> n = 160)"

definition trim :: "string \<Rightarrow> string" where
  "trim s = rev (dropWhile is_space (rev (dropWhile is_space s)))"

text \<open>\<open>toLowerCase()\<close> on the 8-bit range: A to Z and the upper-case Latin-1 letters.\<close>

definition toLowerCase_char :: "char \<Rightarrow> char" where
  "toLowerCase_char c =
     (let n = of_char c :: nat
      in if (65 \<le> n \<and> n \<le> 90) \<or> (192 \<le> n \<and> n \<le> 222 \<and> n \<noteq> 215)
         then char_of (n + 32) else c)"

definition toLowerCase :: "string \<Rightarrow> string" where
  "toLowerCase s = map toLowerCase_char s"

definition startsWith :: "string \<Rightarrow> string \<Rightarrow> bool" where
  "startsWith s p = (take (length p) s = p)"

definition substring :: "string \<Rightarrow> nat \<Rightarrow> string" where
  "substring s n = drop n s"

text \<open>\<open>s.split(c)\<close>: the empty string splits into one empty piece.\<close>

fun split :: "char \<Rightarrow> string \<Rightarrow> string list" where
  "split c [] = [[]]"
| "split c (x # xs) =
     (if x = c then [] # split c xs
      else (case split c xs of [] \<Rightarrow> [[x]] | w # ws \<Rightarrow> (x # w) # ws))"

fun join :: "string \<Rightarrow> string list \<Rightarrow> string" where
  "join sep [] = []"
| "join sep [x] = x"
| "join sep (x # y # ys) = x @ sep @ join sep (y # ys)"

fun string_of_nat :: "nat \<Rightarrow> string" where
  "string_of_nat n =
     (if n < 10 then [''0123456789'' ! n]
      else string_of_nat (n div 10) @ [''0123456789'' ! (n mod 10)])"

definition nl :: string where
  "nl = [CHR 0x0A]"

section \<open>Request validation (newsFiltersSchema)\<close>

text \<open>
  A JavaScript number as far as the schema and the services look at it: comparisons with
  1 and 100 and truthiness.  A finite double is a real number.
\<close>

datatype js_number = NaN | Infinity | NegInfinity | Finite real

definition number_truthy :: "js_number \<Rightarrow> bool" where
  "number_truthy n = (case n of NaN \<Rightarrow> False | Finite x \<Rightarrow> x \<noteq> 0 | _ \<Rightarrow> True)"

text \<open>
  A value of the parsed query string: a string, an array of strings (a repeated key) or
  anything else (a nested object).
\<close>

datatype query_value = QString string | QArray "string list" | QOther

text \<open>
  \<open>req.query\<close>, restricted to the keys of the schema (other keys are stripped).  For
  \<open>pageSize\<close> and \<open>page\<close> the field holds \<open>Number(v)\<close> of the query value \<open>v\<close>, which
  is what \<open>z.coerce.number()\<close> validates.
\<close>

record RawQuery =
  q_country :: "query_value option"
  q_category :: "query_value option"
  q_sources :: "query_value option"
  q_q :: "query_value option"
  q_from :: "query_value option"
  q_to :: "query_value option"
  q_sortBy :: "query_value option"
  q_pageSize :: "js_number option"
  q_page :: "js_number option"

datatype SortBy = relevancy | popularity | publishedAt_order

record NewsFilters =
  nf_country :: "string option"
  nf_category :: "string option"
  nf_sources :: "string list option"
  nf_q :: "string option"
  nf_from :: "string option"
  nf_to :: "string option"
  nf_sortBy :: "SortBy option"
  nf_pageSize :: "js_number option"
  nf_page :: "js_number option"

datatype zod_issue = invalid_type | invalid_union | invalid_enum_value | too_small | too_big

datatype zod_error = ZodError "(string \<times> zod_issue) list"

text \<open>\<open>z.string().optional()\<close>\<close>

definition z_string_optional :: "query_value option \<Rightarrow> zod_issue + string option" where
  "z_string_optional v =
     (case v of None \<Rightarrow> Inr None
      | Some (QString s) \<Rightarrow> Inr (Some s)
      | Some _ \<Rightarrow> Inl invalid_type)"

text \<open>
  \<open>z.union([z.array(z.string()), z.string().transform(val =>
  val.split(',').filter(s => s.trim() !== ''))]).optional()\<close>
\<close>

definition z_sources :: "query_value option \<Rightarrow> zod_issue + string list option" where
  "z_sources v =
     (case v of None \<Rightarrow> Inr None
      | Some (QArray xs) \<Rightarrow> Inr (Some xs)
      | Some (QString s) \<Rightarrow> Inr (Some (filter (\<lambda>s. trim s \<noteq> []) (split (CHR '','') s)))
      | Some QOther \<Rightarrow> Inl invalid_union)"

text \<open>\<open>z.enum(["relevancy", "popularity", "publishedAt"]).optional()\<close>\<close>

definition z_sortBy :: "query_value option \<Rightarrow> zod_issue + SortBy option" where
  "z_sortBy v =
     (case v of None \<Rightarrow> Inr None
      | Some (QString s) \<Rightarrow>
          if s = ''relevancy'' then Inr (Some relevancy)
          else if s = ''popularity'' then Inr (Some popularity)
          else if s = ''publishedAt'' then Inr (Some publishedAt_order)
          else Inl invalid_enum_value
      | Some _ \<Rightarrow> Inl invalid_type)"

text \<open>\<open>z.coerce.number().min(1).max(100).optional()\<close>\<close>

definition z_pageSize :: "js_number option \<Rightarrow> zod_issue + js_number option" where
  "z_pageSize v =
     (case v of None \<Rightarrow> Inr None
      | Some NaN \<Rightarrow> Inl invalid_type
      | Some NegInfinity \<Rightarrow> Inl too_small
      | Some Infinity \<Rightarrow> Inl too_big
      | Some (Finite x) \<Rightarrow>
          if x < 1 then Inl too_small else if 100 < x then Inl too_big
          else Inr (Some (Finite x)))"

text \<open>\<open>z.coerce.number().min(1).optional()\<close>\<close>

definition z_page :: "js_number option \<Rightarrow> zod_issue + js_number option" where
  "z_page v =
     (case v of None \<Rightarrow> Inr None
      | Some NaN \<Rightarrow> Inl invalid_type
      | Some NegInfinity \<Rightarrow> Inl too_small
      | Some Infinity \<Rightarrow> Inr (Some Infinity)
      | Some (Finite x) \<Rightarrow> if x < 1 then Inl too_small else Inr (Some (Finite x)))"

definition issue_at :: "string \<Rightarrow> zod_issue + 'a \<Rightarrow> (string \<times> zod_issue) list" where
  "issue_at path r = (case r of Inl i \<Rightarrow> [(path, i)] | Inr _ \<Rightarrow> [])"

definition parsed :: "zod_issue + 'a option \<Rightarrow> 'a option" where
  "parsed r = (case r of Inl _ \<Rightarrow> None | Inr v \<Rightarrow> v)"

text \<open>
  \<open>newsFiltersSchema.parse\<close>: every key is checked, the issues are collected in the order
  of the schema, and a \<open>ZodError\<close> is thrown when there is one.
\<close>

definition newsFiltersSchema_parse :: "RawQuery \<Rightarrow> zod_error + NewsFilters" where
  "newsFiltersSchema_parse r =
     (let c = z_string_optional (q_country r);
          g = z_string_optional (q_category r);
          s = z_sources (q_sources r);
          q = z_string_optional (q_q r);
          f = z_string_optional (q_from r);
          t = z_string_optional (q_to r);
          b = z_sortBy (q_sortBy r);
          z = z_pageSize (q_pageSize r);
          p = z_page (q_page r);
          issues = issue_at ''country'' c @ issue_at ''category'' g @ issue_at ''sources'' s @
                   issue_at ''q'' q @ issue_at ''from'' f @ issue_at ''to'' t @
                   issue_at ''sortBy'' b @ issue_at ''pageSize'' z @ issue_at ''page'' p
      in if issues = []
         then Inr \<lparr>nf_country = parsed c, nf_category = parsed g, nf_sources = parsed s,
                   nf_q = parsed q, nf_from = parsed f, nf_to = parsed t,
                   nf_sortBy = parsed b, nf_pageSize = parsed z, nf_page = parsed p\<rparr>
         else Inl (ZodError issues))"

section \<open>NewsService: the provider request\<close>

text \<open>
  Each method builds a \<open>URLSearchParams\<close> and fetches the URL made of it; the parameters
  are the request.  \<open>toString\<close> is the decimal rendering of a number
  (\<open>Number.prototype.toString\<close>).
\<close>

type_synonym URLSearchParams = "(string \<times> string) list"

definition SortBy_string :: "SortBy \<Rightarrow> string" where
  "SortBy_string b =
     (case b of relevancy \<Rightarrow> ''relevancy'' | popularity \<Rightarrow> ''popularity''
      | publishedAt_order \<Rightarrow> ''publishedAt'')"

definition set_if_truthy :: "string \<Rightarrow> string option \<Rightarrow> URLSearchParams \<Rightarrow> URLSearchParams" where
  "set_if_truthy k v params = (case v of Some s \<Rightarrow> if s \<noteq> [] then map_set k s params else params
                               | None \<Rightarrow> params)"

definition set_if_number ::
  "(js_number \<Rightarrow> string) \<Rightarrow> string \<Rightarrow> js_number option \<Rightarrow> URLSearchParams \<Rightarrow> URLSearchParams" where
  "set_if_number toString k v params =
     (case v of Some n \<Rightarrow> if number_truthy n then map_set k (toString n) params else params
      | None \<Rightarrow> params)"

definition set_sources :: "string list option \<Rightarrow> URLSearchParams \<Rightarrow> URLSearchParams" where
  "set_sources v params =
     (case v of Some srcs \<Rightarrow> if length srcs > 0 then map_set ''sources'' (join '','' srcs) params
                              else params
      | None \<Rightarrow> params)"

definition fetchTopHeadlines :: "(js_number \<Rightarrow> string) \<Rightarrow> NewsFilters \<Rightarrow> URLSearchParams" where
  "fetchTopHeadlines toString filters =
     (let params = [];
          params = set_if_truthy ''country'' (nf_country filters) params;
          params = set_if_truthy ''category'' (nf_category filters) params;
          params = set_sources (nf_sources filters) params;
          params = set_if_truthy ''q'' (nf_q filters) params;
          params = set_if_number toString ''pageSize'' (nf_pageSize filters) params;
          params = set_if_number toString ''page'' (nf_page filters) params
      in if nf_sources filters = None \<and> \<not> truthy (nf_country filters)
         then map_set ''country'' ''us'' params else params)"

definition searchEverything :: "(js_number \<Rightarrow> string) \<Rightarrow> NewsFilters \<Rightarrow> URLSearchParams" where
  "searchEverything toString filters =
     (let params = [];
          params = set_if_truthy ''q'' (nf_q filters) params;
          params = set_sources (nf_sources filters) params;
          params = set_if_truthy ''from'' (nf_from filters) params;
          params = set_if_truthy ''to'' (nf_to filters) params;
          params = (case nf_sortBy filters of
                      Some b \<Rightarrow> map_set ''sortBy'' (SortBy_string b) params
                    | None \<Rightarrow> params);
          params = set_if_number toString ''pageSize'' (nf_pageSize filters) params;
          params = set_if_number toString ''page'' (nf_page filters) params
      in if \<not> truthy (nf_q filters) \<and>
            (case nf_sources filters of None \<Rightarrow> True | Some srcs \<Rightarrow> length srcs = 0)
         then map_set ''q'' ''technology'' params else params)"

text \<open>
  The provider request of \<open>GET /api/news\<close> and of \<open>GET /api/news/search\<close>: the query is
  parsed, and the filters go to the service; a \<open>ZodError\<close> ends the request.
\<close>

definition news_request :: "(js_number \<Rightarrow> string) \<Rightarrow> RawQuery \<Rightarrow> zod_error + URLSearchParams" where
  "news_request toString query =
     (case newsFiltersSchema_parse query of
        Inl e \<Rightarrow> Inl e
      | Inr filters \<Rightarrow> Inr (fetchTopHeadlines toString filters))"

definition search_request :: "(js_number \<Rightarrow> string) \<Rightarrow> RawQuery \<Rightarrow> zod_error + URLSearchParams" where
  "search_request toString query =
     (case newsFiltersSchema_parse query of
        Inl e \<Rightarrow> Inl e
      | Inr filters \<Rightarrow> Inr (searchEverything toString filters))"

section \<open>GeminiService\<close>

text \<open>
  The summarization engine is outside the program: \<open>generateContent\<close> either throws
  (rejected promise: transport error, quota, timeout raised by the client) or answers
  with a response whose \<open>text\<close> may be missing.  An engine maps the model name and the
  prompt to that outcome.
\<close>

datatype engine_result = Threw | Response "string option"

type_synonym engine = "string \<Rightarrow> string \<Rightarrow> engine_result"

datatype SummaryLength = short | medium | long

definition lengthInstructions :: "SummaryLength \<Rightarrow> string" where
  "lengthInstructions l =
     (case l of short \<Rightarrow> ''Summarize in 1-2 concise sentences''
      | medium \<Rightarrow> ''Summarize in 3-4 sentences with key details''
      | long \<Rightarrow> ''Summarize in 5-6 sentences with comprehensive details'')"

text \<open>\<open>s || d\<close> for a string \<open>s\<close> and a default \<open>d\<close>.\<close>

definition or_default :: "string option \<Rightarrow> string \<Rightarrow> string" where
  "or_default v d = (case v of None \<Rightarrow> d | Some s \<Rightarrow> if s = [] then d else s)"

definition summarize_prompt :: "SummaryLength \<Rightarrow> string \<Rightarrow> string \<Rightarrow> string" where
  "summarize_prompt l title_arg content_arg =
     lengthInstructions l @
     '' the following news article while maintaining the key points and important information:'' @
     nl @ nl @ ''Title: '' @ title_arg @ nl @
     ''Content: '' @ or_default (Some content_arg) ''No content available'' @ nl @ nl @
     ''Please provide a clear, informative summary that captures the essence of the article.''"

text \<open>\<open>response.text?.trim() || d\<close>\<close>

definition response_text_or :: "string option \<Rightarrow> string \<Rightarrow> string" where
  "response_text_or text_field d = or_default (map_option trim text_field) d"

definition summarizeArticle ::
  "engine \<Rightarrow> string \<Rightarrow> string \<Rightarrow> SummaryLength option \<Rightarrow> string" where
  "summarizeArticle ai title_arg content_arg summaryLength =
     (let l = (case summaryLength of None \<Rightarrow> medium | Some l \<Rightarrow> l)
      in case ai ''gemini-2.5-flash'' (summarize_prompt l title_arg content_arg) of
           Response t \<Rightarrow> response_text_or t ''Unable to generate summary''
         | Threw \<Rightarrow> ''Summary unavailable due to processing error'')"

record TopicArticle =
  ta_title :: string
  ta_content :: string
  ta_description :: "string option"
  ta_url :: string
  ta_source :: "Source option"

record SourceLink =
  sl_title :: string
  sl_url :: string
  sl_source :: string

record TopicSummary =
  summary :: string
  sourceLinks :: "SourceLink list"

definition ta_source_name :: "TopicArticle \<Rightarrow> string option" where
  "ta_source_name a = (case ta_source a of None \<Rightarrow> None | Some s \<Rightarrow> source_name s)"

fun articleTexts :: "nat \<Rightarrow> TopicArticle list \<Rightarrow> string list" where
  "articleTexts index [] = []"
| "articleTexts index (a # as) =
     (''Article '' @ string_of_nat (index + 1) @ '': '' @ ta_title a @ nl @
      ''Source: '' @ or_default (ta_source_name a) ''Unknown'' @ nl @
      ''Content: '' @
        or_default (js_or (Some (ta_content a)) (ta_description a)) ''No content available'' @ nl @
      ''URL: '' @ ta_url a @ nl @ ''---'') # articleTexts (index + 1) as"

definition topic_prompt :: "string \<Rightarrow> TopicArticle list \<Rightarrow> string" where
  \<open>topic_prompt topic articles =
     ''You are a news analyst. Based on the following articles about "'' @ topic @
     ''", provide a comprehensive summary that:'' @ nl @ nl @
     ''1. Gives an overview of the current situation regarding "'' @ topic @ ''"'' @ nl @
     ''2. Highlights key developments, facts, and trends'' @ nl @
     ''3. Mentions different perspectives or viewpoints if present'' @ nl @
     ''4. Organizes information in a clear, informative manner'' @ nl @ nl @
     ''Here are the articles:'' @ nl @ nl @
     join (nl @ nl) (articleTexts 0 articles) @ nl @ nl @
     ''Please provide a well-structured summary that captures the essence of what's happening with "'' @
     topic @
     ''" based on these sources. Make it informative and comprehensive while being concise.''\<close>

definition generateTopicSummary :: "engine \<Rightarrow> string \<Rightarrow> TopicArticle list \<Rightarrow> TopicSummary" where
  "generateTopicSummary ai topic articles =
     (case ai ''gemini-2.5-pro'' (topic_prompt topic articles) of
        Response t \<Rightarrow>
          \<lparr>summary = response_text_or t ''Unable to generate topic summary'',
           sourceLinks =
             map (\<lambda>a. \<lparr>sl_title = ta_title a, sl_url = ta_url a,
                        sl_source = or_default (ta_source_name a) ''Unknown Source''\<rparr>)
                 articles\<rparr>
      | Threw \<Rightarrow>
          \<lparr>summary = ''Unable to generate topic summary due to processing error'',
           sourceLinks =
             map (\<lambda>a. \<lparr>sl_title = ta_title a, sl_url = ta_url a,
                        sl_source = or_default (ta_source_name a) ''Unknown Source''\<rparr>)
                 articles\<rparr>)"

section \<open>Route POST /api/summarize-article/:id\<close>

datatype response =
    Status500 string
  | Status404 string
  | Status200 Article string

text \<open>
  The handler reads and writes the article map, so it returns the response together with
  the map it leaves behind.  \<open>geminiService\<close> is \<open>None\<close> when the service could not be
  constructed at start-up.
\<close>

definition summarize_article_route ::
  "engine option \<Rightarrow> articles \<Rightarrow> string \<Rightarrow> SummaryLength option \<Rightarrow> response \<times> articles" where
  "summarize_article_route geminiService m i summaryLength =
     (case geminiService of
        None \<Rightarrow>
          (Status500 ''Gemini service not available. Please check GEMINI_API_KEY environment variable.'',
           m)
      | Some ai \<Rightarrow>
          (case find (\<lambda>a. id' a = i) (getArticles m None) of
             None \<Rightarrow> (Status404 ''Article not found'', m)
           | Some article \<Rightarrow>
               (let summary_text =
                      summarizeArticle ai (title article)
                        (or_default (js_or (content article) (description article)) [])
                        summaryLength
                in case updateArticle m i (no_updates\<lparr>upd_aiSummary := Some (Some summary_text)\<rparr>) of
                     Inl (ArticleNotFound k) \<Rightarrow>
                       (Status500 (''Article with id '' @ k @ '' not found''), m)
                   | Inr (updatedArticle, m') \<Rightarrow>
                       (Status200 updatedArticle summary_text, m'))))"

section \<open>Voice search (useVoiceSearch)\<close>

definition prefixes :: "string list" where
  "prefixes = [''search for'', ''find'', ''show me'', ''get'', ''look for'', ''filter'']"

text \<open>
  The loop over the prefixes with its \<open>break\<close>: \<open>searchQuery\<close> starts as the command and
  is replaced at the first prefix the lower-cased command starts with.
\<close>

fun strip_prefix_loop :: "string list \<Rightarrow> string \<Rightarrow> string \<Rightarrow> string" where
  "strip_prefix_loop [] lowerCommand command = command"
| "strip_prefix_loop (prefix # rest) lowerCommand command =
     (if startsWith lowerCommand prefix then trim (substring command (length prefix))
      else strip_prefix_loop rest lowerCommand command)"

definition searchQuery :: "string \<Rightarrow> string" where
  "searchQuery command = strip_prefix_loop prefixes (toLowerCase command) command"

text \<open>
  \<open>processVoiceCommand\<close> has no result of its own; its effect is the call of \<open>onSearch\<close>,
  returned here as \<open>Some\<close> of the argument, with \<open>None\<close> for no call.
\<close>

definition processVoiceCommand :: "bool \<Rightarrow> string \<Rightarrow> string option" where
  "processVoiceCommand onSearch command =
     (let q = searchQuery command in if onSearch \<and> q \<noteq> [] then Some q else None)"

text \<open>The \<open>onResult\<close> handler that feeds it: only final, non-blank transcripts, trimmed.\<close>

definition onResult :: "bool \<Rightarrow> bool \<Rightarrow> string \<Rightarrow> string option" where
  "onResult onSearch isFinal transcript =
     (if isFinal \<and> trim transcript \<noteq> [] then processVoiceCommand onSearch (trim transcript)
      else None)"

section \<open>Expected outcomes\<close>

text \<open>
  The summary a caller of the summarize-article route sees for each outcome of the engine
  call: the text of the \<open>catch\<close> branch, the text for a response without content, or
  the trimmed response.
\<close>

definition summary_of :: "engine_result \<Rightarrow> string" where
  "summary_of r =
     (case r of
        Threw \<Rightarrow> ''Summary unavailable due to processing error''
      | Response None \<Rightarrow> ''Unable to generate summary''
      | Response (Some t) \<Rightarrow> if trim t = [] then ''Unable to generate summary'' else trim t)"

text \<open>The source shown in a citation link: the name, unless it is missing or empty.\<close>

definition source_label :: "TopicArticle \<Rightarrow> string" where
  "source_label a =
     (case ta_source a of
        None \<Rightarrow> ''Unknown Source''
      | Some s \<Rightarrow>
          (case source_name s of
             None \<Rightarrow> ''Unknown Source''
           | Some n \<Rightarrow> if n = [] then ''Unknown Source'' else n))"

section \<open>Example values\<close>

definition example_article :: "string \<Rightarrow> Source option \<Rightarrow> int \<Rightarrow> Article" where
  "example_article i src t =
     \<lparr>title = ''Headline'', description = None, content = None, url = ''https://example.org/a'',
      urlToImage = None, publishedAt = t, source = src, author = None, category = None,
      country = None, aiSummary = None, id' = i, createdAt = Some 0\<rparr>"

definition bbc :: "Source option" where
  "bbc = Some \<lparr>source_id = Some ''bbc-news'', source_name = Some ''BBC News''\<rparr>"

definition unnamed_source :: "Source option" where
  "unnamed_source = Some \<lparr>source_id = Some ''wire'', source_name = Some []\<rparr>"

text \<open>
  Three stored articles; the second and the third are published at the same time, and the
  second has a source without a name.
\<close>

definition example_store :: articles where
  "example_store =
     [(''a1'', example_article ''a1'' bbc 100),
      (''a2'', example_article ''a2'' unnamed_source 200),
      (''a3'', example_article ''a3'' bbc 200)]"

definition sources_filter :: "string list \<Rightarrow> ArticleFilters" where
  "sources_filter srcs = \<lparr>f_country = None, f_category = None, f_sources = Some srcs\<rparr>"

definition example_insert :: InsertArticle where
  "example_insert =
     \<lparr>title = ''Fresh'', description = Some ''d'', content = None, url = ''https://example.org/n'',
      urlToImage = None, publishedAt = 300, source = bbc, author = None, category = None,
      country = Some ''gb'', aiSummary = None\<rparr>"

definition summary_update :: "string \<Rightarrow> PartialArticle" where
  "summary_update s = no_updates\<lparr>upd_aiSummary := Some (Some s)\<rparr>"

definition overwriting_update :: PartialArticle where
  "overwriting_update = no_updates\<lparr>upd_id := Some ''zz'', upd_createdAt := Some (Some 999)\<rparr>"

definition failing_engine :: engine where
  "failing_engine model prompt = Threw"

definition empty_engine :: engine where
  "empty_engine model prompt = Response None"

definition example_topic_articles :: "TopicArticle list" where
  "example_topic_articles =
     [\<lparr>ta_title = ''Prices rise'', ta_content = ''Inflation went up.'', ta_description = None,
       ta_url = ''https://example.org/1'', ta_source = bbc\<rparr>,
      \<lparr>ta_title = ''Rates hold'', ta_content = [], ta_description = Some ''Central bank'',
       ta_url = ''https://example.org/2'', ta_source = unnamed_source\<rparr>,
      \<lparr>ta_title = ''Wages'', ta_content = ''Pay.'', ta_description = None,
       ta_url = ''https://example.org/3'', ta_source = None\<rparr>]"

text \<open>A rendering of numbers for the examples, exact on the whole numbers from 0.\<close>

definition whole_number_toString :: "js_number \<Rightarrow> string" where
  "whole_number_toString n =
     (case n of NaN \<Rightarrow> ''NaN'' | Infinity \<Rightarrow> ''Infinity'' | NegInfinity \<Rightarrow> ''-Infinity''
      | Finite x \<Rightarrow> string_of_nat (nat \<lfloor>x\<rfloor>))"

definition empty_query :: RawQuery where
  "empty_query =
     \<lparr>q_country = None, q_category = None, q_sources = None, q_q = None, q_from = None,
      q_to = None, q_sortBy = None, q_pageSize = None, q_page = None\<rparr>"

definition no_filters :: NewsFilters where
  "no_filters =
     \<lparr>nf_country = None, nf_category = None, nf_sources = None, nf_q = None, nf_from = None,
      nf_to = None, nf_sortBy = None, nf_pageSize = None, nf_page = None\<rparr>"

definition empty_sources_query :: RawQuery where
  "empty_sources_query = empty_query\<lparr>q_sources := Some (QString [])\<rparr>"

definition empty_sources_filters :: NewsFilters where
  "empty_sources_filters = no_filters\<lparr>nf_sources := Some []\<rparr>"

definition out_of_range_query :: RawQuery where
  "out_of_range_query = empty_query\<lparr>q_pageSize := Some (Finite 101), q_page := Some (Finite 0)\<rparr>"

section \<open>Properties of the article store\<close>

lemma set_insert_sorted: "set (insert_sorted cmp x ys) = insert x (set ys)"
  by (induction ys) auto

lemma set_array_sort: "set (array_sort cmp xs) = set xs"
  by (induction xs) (auto simp: set_insert_sorted)

lemma sorted_insert_sorted:
  "sorted_wrt (\<lambda>a b. publishedAt b \<le> publishedAt a) ys \<Longrightarrow>
   sorted_wrt (\<lambda>a b. publishedAt b \<le> publishedAt a) (insert_sorted by_published_desc x ys)"
  by (induction ys) (auto simp: set_insert_sorted by_published_desc_def)

lemma sorted_array_sort:
  "sorted_wrt (\<lambda>a b. publishedAt b \<le> publishedAt a) (array_sort by_published_desc xs)"
  by (induction xs) (auto simp: sorted_insert_sorted)

lemma filter_insert_sorted:
  "sorted_wrt (\<lambda>a b. publishedAt b \<le> publishedAt a) ys \<Longrightarrow>
   filter (\<lambda>a. publishedAt a = t) (insert_sorted by_published_desc x ys) =
   (if publishedAt x = t then x # filter (\<lambda>a. publishedAt a = t) ys
    else filter (\<lambda>a. publishedAt a = t) ys)"
  by (induction ys) (auto simp: by_published_desc_def)

lemma filter_array_sort:
  "filter (\<lambda>a. publishedAt a = t) (array_sort by_published_desc xs) =
   filter (\<lambda>a. publishedAt a = t) xs"
  by (induction xs) (auto simp: filter_insert_sorted sorted_array_sort)

lemma mset_insert_sorted: "mset (insert_sorted cmp x ys) = add_mset x (mset ys)"
  by (induction ys) auto

lemma mset_array_sort: "mset (array_sort cmp xs) = mset xs"
  by (induction xs) (auto simp: mset_insert_sorted)

lemma getArticles_unfold:
  "getArticles m filters =
   array_sort by_published_desc (filter (passes_filters filters) (map_values m))"
  by (cases filters)
     (auto simp: getArticles_def passes_filters_def Let_def split: option.splits
           intro!: arg_cong[where f="array_sort by_published_desc"] filter_cong)

lemma set_getArticles:
  "set (getArticles m filters) = {a \<in> set (map_values m). passes_filters filters a}"
  by (simp add: getArticles_unfold set_array_sort)

text \<open>
  The order of the result, for every article map and every filter: \<open>getArticles\<close> returns
  the records it selects (the same multiset), ordered by \<open>publishedAt\<close> descending; for
  every timestamp, the records published at that time come out in the order in which the
  map holds them, which is the insertion order: the sort is stable.
\<close>

lemma getArticles_sorted_stable:
  "sorted_wrt (\<lambda>a b. publishedAt a \<ge> publishedAt b) (getArticles m filters) \<and>
   mset (getArticles m filters) = mset (filter (passes_filters filters) (map_values m)) \<and>
   (\<forall>t. filter (\<lambda>a. publishedAt a = t) (getArticles m filters) =
        filter (\<lambda>a. publishedAt a = t) (filter (passes_filters filters) (map_values m)))"
  by (simp add: getArticles_unfold sorted_array_sort mset_array_sort filter_array_sort)

lemma example_sorted:
  "getArticles example_store None =
     [example_article ''a2'' unnamed_source 200, example_article ''a3'' bbc 200,
      example_article ''a1'' bbc 100]"
  by (simp add: getArticles_def example_store_def map_values_def example_article_def
       by_published_desc_def)

text \<open>
  What the method selects always matches in the sense of the specification, and the two
  notions are the same for every filter without a sources list (or with an empty one):
  there the result is exactly the matching records, newest first, ties in insertion
  order.
\<close>

lemma source_key_matches:
  "array_includes srcs (source_key a) \<Longrightarrow>
   (case source a of
      None \<Rightarrow> False
    | Some s \<Rightarrow>
        (case source_name s of None \<Rightarrow> False | Some n \<Rightarrow> n \<in> set srcs) \<or>
        (case source_id s of None \<Rightarrow> False | Some i \<Rightarrow> i \<in> set srcs))"
  by (cases "source a")
     (auto simp: source_key_def js_or_def array_includes_def truthy_def
           split: option.splits if_splits)

lemma present_iff_truthy:
  "(case v of None \<Rightarrow> True | Some c \<Rightarrow> if c = [] then True else x = Some c) =
   (if truthy v then x = v else True)"
  by (cases v) (auto simp: truthy_def)

lemma passes_filters_spec_matches: "passes_filters filters a \<Longrightarrow> spec_matches filters a"
proof (cases filters)
  case None
  then show ?thesis by (simp add: spec_matches_def)
next
  case (Some f)
  assume p: "passes_filters filters a"
  show ?thesis
  proof (cases "f_sources f")
    case None
    with p Some show ?thesis
      by (simp add: passes_filters_def spec_matches_def present_iff_truthy)
  next
    case (Some srcs)
    with p \<open>filters = Some f\<close> source_key_matches [of srcs a] show ?thesis
      by (simp add: passes_filters_def spec_matches_def present_iff_truthy split: if_splits)
  qed
qed

lemma getArticles_only_matching:
  "set (getArticles m filters) \<subseteq> {a \<in> set (map_values m). spec_matches filters a}"
  by (auto simp: set_getArticles passes_filters_spec_matches)

lemma spec_matches_without_sources:
  assumes "\<forall>f. filters = Some f \<longrightarrow> f_sources f = None \<or> f_sources f = Some []"
  shows "spec_matches filters a = passes_filters filters a"
proof (cases filters)
  case None
  then show ?thesis by (simp add: spec_matches_def passes_filters_def)
next
  case (Some f)
  with assms have "f_sources f = None \<or> f_sources f = Some []" by simp
  with Some show ?thesis
    by (auto simp: passes_filters_def spec_matches_def present_iff_truthy)
qed

lemma getArticles_exact_without_sources:
  assumes "\<forall>f. filters = Some f \<longrightarrow> f_sources f = None \<or> f_sources f = Some []"
  shows "sorted_wrt (\<lambda>a b. publishedAt a \<ge> publishedAt b) (getArticles m filters) \<and>
         mset (getArticles m filters) = mset (filter (spec_matches filters) (map_values m)) \<and>
         (\<forall>t. filter (\<lambda>a. publishedAt a = t) (getArticles m filters) =
              filter (\<lambda>a. publishedAt a = t) (filter (spec_matches filters) (map_values m)))"
proof -
  have "spec_matches filters = passes_filters filters"
    using assms by (intro ext) (rule spec_matches_without_sources)
  then show ?thesis using getArticles_sorted_stable [of m filters] by simp
qed

text \<open>
  C7.  With a sources list the method does not return exactly the matching records.  In
  the example map the first and the third article have the source
  \<open>{id: "bbc-news", name: "BBC News"}\<close>, so both match the list \<open>["bbc-news"]\<close> by their
  source id, and the matching records, newest first, are the third and then the first;
  \<open>getArticles\<close> returns none of them.  The same articles are returned, newest first,
  for the list \<open>["BBC News"]\<close>, and without a filter all three come back newest first
  with the two records of equal time in insertion order.
\<close>

theorem getArticles_drops_matching_records:
  "filter (spec_matches (Some (sources_filter [''bbc-news'']))) (map_values example_store) =
     [example_article ''a1'' bbc 100, example_article ''a3'' bbc 200] \<and>
   array_sort by_published_desc
     (filter (spec_matches (Some (sources_filter [''bbc-news'']))) (map_values example_store)) =
     [example_article ''a3'' bbc 200, example_article ''a1'' bbc 100] \<and>
   getArticles example_store (Some (sources_filter [''bbc-news''])) = [] \<and>
   getArticles example_store (Some (sources_filter [''BBC News''])) =
     [example_article ''a3'' bbc 200, example_article ''a1'' bbc 100] \<and>
   getArticles example_store None =
     [example_article ''a2'' unnamed_source 200, example_article ''a3'' bbc 200,
      example_article ''a1'' bbc 100]"
proof -
  have v: "map_values example_store =
      [example_article ''a1'' bbc 100, example_article ''a2'' unnamed_source 200,
       example_article ''a3'' bbc 200]"
    by (simp add: example_store_def map_values_def)
  have s: "source (example_article i src t) = src" "publishedAt (example_article i src t) = t"
    for i src t
    by (simp_all add: example_article_def)
  have k: "source_key (example_article i bbc t) = Some ''BBC News''"
          "source_key (example_article i unnamed_source t) = Some ''wire''" for i t
    by (simp_all add: source_key_def s bbc_def unnamed_source_def js_or_def truthy_def)
  have m: "spec_matches (Some (sources_filter [''bbc-news''])) (example_article i bbc t)"
          "\<not> spec_matches (Some (sources_filter [''bbc-news''])) (example_article i unnamed_source t)"
    for i t
    by (simp_all add: spec_matches_def sources_filter_def s bbc_def unnamed_source_def)
  have c1: "filter (spec_matches (Some (sources_filter [''bbc-news'']))) (map_values example_store) =
     [example_article ''a1'' bbc 100, example_article ''a3'' bbc 200]"
    by (simp add: v m)
  have c2: "array_sort by_published_desc
     [example_article ''a1'' bbc 100, example_article ''a3'' bbc 200] =
     [example_article ''a3'' bbc 200, example_article ''a1'' bbc 100]"
    by (simp add: by_published_desc_def s)
  have c3: "getArticles example_store (Some (sources_filter [''bbc-news''])) = []"
    by (simp add: getArticles_def v sources_filter_def truthy_def k array_includes_def)
  have c4: "getArticles example_store (Some (sources_filter [''BBC News''])) =
     [example_article ''a3'' bbc 200, example_article ''a1'' bbc 100]"
    by (simp add: getArticles_def v sources_filter_def truthy_def k array_includes_def
          by_published_desc_def s)
  have c5: "getArticles example_store None =
     [example_article ''a2'' unnamed_source 200, example_article ''a3'' bbc 200,
      example_article ''a1'' bbc 100]"
    by (simp add: getArticles_def v by_published_desc_def s)
  show ?thesis using c1 c2 c3 c4 c5 by simp
qed

subsection \<open>The sources filter\<close>

text \<open>
  C1.  The sources filter looks up \<open>source?.name || source?.id\<close>, so the id is consulted
  only when the name is empty or missing.  The first article of the example map has the
  source \<open>{id: "bbc-news", name: "BBC News"}\<close>; the list \<open>["bbc-news"]\<close> contains its
  source id, and \<open>getArticles\<close> does not return it.
\<close>

theorem getArticles_misses_source_id:
  "map_values example_store ! 0 = example_article ''a1'' bbc 100 \<and>
   bbc = Some \<lparr>source_id = Some ''bbc-news'', source_name = Some ''BBC News''\<rparr> \<and>
   ''bbc-news'' \<in> set [''bbc-news''] \<and>
   example_article ''a1'' bbc 100 \<notin> set (getArticles example_store (Some (sources_filter [''bbc-news''])))"
  by (simp add: set_getArticles passes_filters_def sources_filter_def example_store_def
        map_values_def example_article_def bbc_def unnamed_source_def source_key_def js_or_def
        truthy_def array_includes_def)

text \<open>
  What the filter does for every article with a source: it selects by the name when the
  name is not empty, and by the id otherwise.
\<close>

lemma getArticles_sources_name_else_id:
  assumes "a \<in> set (map_values m)"
    and "f_sources f = Some srcs" and "srcs \<noteq> []"
    and "truthy (f_country f) \<longrightarrow> country a = f_country f"
    and "truthy (f_category f) \<longrightarrow> category a = f_category f"
    and "source a = Some s"
  shows "a \<in> set (getArticles m (Some f)) \<longleftrightarrow>
           (if truthy (source_name s) then source_name s \<in> Some ` set srcs
            else source_id s \<in> Some ` set srcs)"
  using assms
  by (auto simp: set_getArticles passes_filters_def source_key_def js_or_def
        array_includes_def split: option.splits)

lemma getArticles_sources_name_else_id_example:
  "example_article ''a1'' bbc 100 \<in> set (getArticles example_store (Some (sources_filter [''BBC News'']))) \<and>
   example_article ''a2'' unnamed_source 200 \<in> set (getArticles example_store (Some (sources_filter [''wire''])))"
proof -
  have m1: "example_article ''a1'' bbc 100 \<in> set (map_values example_store)"
    and m2: "example_article ''a2'' unnamed_source 200 \<in> set (map_values example_store)"
    by (simp_all add: example_store_def map_values_def)
  have s1: "source (example_article ''a1'' bbc 100) =
              Some \<lparr>source_id = Some ''bbc-news'', source_name = Some ''BBC News''\<rparr>"
    and s2: "source (example_article ''a2'' unnamed_source 200) =
              Some \<lparr>source_id = Some ''wire'', source_name = Some []\<rparr>"
    by (simp_all add: example_article_def bbc_def unnamed_source_def)
  have "example_article ''a1'' bbc 100 \<in> set (getArticles example_store (Some (sources_filter [''BBC News'']))) \<longleftrightarrow> True"
    using getArticles_sources_name_else_id [OF m1 _ _ _ _ s1, of "sources_filter [''BBC News'']" "[''BBC News'']"]
    by (simp add: sources_filter_def truthy_def)
  moreover
  have "example_article ''a2'' unnamed_source 200 \<in> set (getArticles example_store (Some (sources_filter [''wire'']))) \<longleftrightarrow> True"
    using getArticles_sources_name_else_id [OF m2 _ _ _ _ s2, of "sources_filter [''wire'']" "[''wire'']"]
    by (simp add: sources_filter_def truthy_def)
  ultimately show ?thesis by simp
qed

subsection \<open>Identity and creation time\<close>

lemma map_get_map_set: "map_get (map_set k v m) k' = (if k' = k then Some v else map_get m k')"
  by (induction m) auto

lemma keys_map_set:
  "map fst (map_set k v m) = (if k \<in> fst ` set m then map fst m else map fst m @ [k])"
  by (induction m) force+

lemma map_set_fresh: "k \<notin> fst ` set m \<Longrightarrow> map_set k v m = m @ [(k, v)]"
  by (induction m) auto

lemma map_get_in_keys: "map_get m k = Some a \<Longrightarrow> k \<in> fst ` set m"
  by (induction m) (auto split: if_splits)

lemma map_get_in_values: "map_get m k = Some a \<Longrightarrow> a \<in> set (map_values m)"
  by (induction m) (auto simp: map_values_def split: if_splits)

lemma list_all_map_set:
  "list_all P m \<Longrightarrow> P (k, v) \<Longrightarrow> list_all P (map_set k v m)"
  by (induction m) auto

lemma store_ok_map_set: "store_ok m \<Longrightarrow> id' v = k \<Longrightarrow> store_ok (map_set k v m)"
  unfolding store_ok_def by (simp add: keys_map_set list_all_map_set)

lemma store_ok_ids: "store_ok m \<Longrightarrow> map id' (map_values m) = map fst m"
  unfolding store_ok_def map_values_def by (induction m) auto

lemma store_ok_ids_distinct: "store_ok m \<Longrightarrow> distinct (map id' (map_values m))"
  by (simp add: store_ok_ids) (simp add: store_ok_def)

lemma store_ok_map_get: "store_ok m \<Longrightarrow> map_get m k = Some a \<Longrightarrow> id' a = k"
  unfolding store_ok_def by (induction m) (auto split: if_splits)

lemma example_store_ok: "store_ok example_store"
  by (simp add: store_ok_def example_store_def example_article_def)

text \<open>
  \<open>updateArticle\<close> spreads the whole partial record over the stored one: a partial record
  that carries \<open>id\<close> and \<open>createdAt\<close> replaces both in the stored article.
\<close>

theorem updateArticle_overwrites_id_createdAt:
  "map_option (\<lambda>a. (id' a, createdAt a)) (map_get example_store ''a1'') = Some (''a1'', Some 0) \<and>
   (case updateArticle example_store ''a1'' overwriting_update of
      Inl e \<Rightarrow> None
    | Inr (a, m') \<Rightarrow> map_option (\<lambda>a. (id' a, createdAt a)) (map_get m' ''a1'')) =
     Some (''zz'', Some 999)"
  by (simp add: example_store_def example_article_def updateArticle_def overwriting_update_def
        no_updates_def merge_updates_def spread_def Let_def)

text \<open>
  C2 (as amended).  In a map whose records are stored under their own ids:
  \<open>createArticle\<close> with a fresh id appends one record carrying that id and the creation
  time, leaves every other record as it is, and the ids stay pairwise distinct;
  \<open>updateArticle\<close> with a partial record that carries neither \<open>id\<close> nor \<open>createdAt\<close>
  succeeds on a stored id, keeps the id and the creation time of the updated record,
  leaves every other record and the key order as they are, and the ids stay distinct.
\<close>

theorem id_createdAt_preserved:
  assumes ok: "store_ok m"
  shows "(uuid \<notin> fst ` set m \<longrightarrow>
            (\<exists>a. createArticle uuid now m ins = (a, m @ [(uuid, a)]) \<and>
                 id' a = uuid \<and> createdAt a = Some now \<and>
                 store_ok (m @ [(uuid, a)]) \<and>
                 distinct (map id' (map_values (m @ [(uuid, a)]))))) \<and>
         (\<forall>a. map_get m i = Some a \<and> upd_id p = None \<and> upd_createdAt p = None \<longrightarrow>
            (\<exists>a' m'. updateArticle m i p = Inr (a', m') \<and>
                 id' a' = id' a \<and> createdAt a' = createdAt a \<and>
                 map_get m' i = Some a' \<and>
                 (\<forall>k. k \<noteq> i \<longrightarrow> map_get m' k = map_get m k) \<and>
                 map fst m' = map fst m \<and>
                 store_ok m' \<and> distinct (map id' (map_values m'))))"
proof (intro conjI impI allI)
  assume fresh: "uuid \<notin> fst ` set m"
  define a where "a = fst (createArticle uuid now m ins)"
  have c: "createArticle uuid now m ins = (a, map_set uuid a m)"
    by (simp add: a_def createArticle_def Let_def)
  have ida: "id' a = uuid" and ca: "createdAt a = Some now"
    by (simp_all add: a_def createArticle_def Let_def)
  have ok': "store_ok (map_set uuid a m)"
    using ok ida by (rule store_ok_map_set)
  from fresh have eq: "map_set uuid a m = m @ [(uuid, a)]" by (rule map_set_fresh)
  show "\<exists>a. createArticle uuid now m ins = (a, m @ [(uuid, a)]) \<and>
             id' a = uuid \<and> createdAt a = Some now \<and>
             store_ok (m @ [(uuid, a)]) \<and>
             distinct (map id' (map_values (m @ [(uuid, a)])))"
    using c ida ca ok' eq store_ok_ids_distinct[OF ok'] by (intro exI[of _ a]) simp
next
  fix a
  assume h: "map_get m i = Some a \<and> upd_id p = None \<and> upd_createdAt p = None"
  define a' where "a' = merge_updates a p"
  have u: "updateArticle m i p = Inr (a', map_set i a' m)"
    using h by (simp add: updateArticle_def a'_def Let_def)
  have ida: "id' a' = id' a" and ca: "createdAt a' = createdAt a"
    using h by (simp_all add: a'_def merge_updates_def spread_def)
  have "id' a = i" using ok h by (simp add: store_ok_map_get)
  with ida have "id' a' = i" by simp
  with ok have ok': "store_ok (map_set i a' m)" by (rule store_ok_map_set)
  have keys: "map fst (map_set i a' m) = map fst m"
    using h map_get_in_keys[of m i a] by (simp add: keys_map_set)
  show "\<exists>a' m'. updateArticle m i p = Inr (a', m') \<and>
                 id' a' = id' a \<and> createdAt a' = createdAt a \<and>
                 map_get m' i = Some a' \<and>
                 (\<forall>k. k \<noteq> i \<longrightarrow> map_get m' k = map_get m k) \<and>
                 map fst m' = map fst m \<and>
                 store_ok m' \<and> distinct (map id' (map_values m'))"
    using u ida ca keys ok' store_ok_ids_distinct[OF ok']
    by (intro exI[of _ a'] exI[of _ "map_set i a' m"]) (simp add: map_get_map_set)
qed

theorem id_createdAt_preserved_witness:
  "store_ok example_store \<and> ''a9'' \<notin> fst ` set example_store \<and>
   map_get example_store ''a1'' = Some (example_article ''a1'' bbc 100) \<and>
   upd_id (summary_update ''S'') = None \<and> upd_createdAt (summary_update ''S'') = None \<and>
   (\<exists>a. createArticle ''a9'' 5 example_store example_insert = (a, example_store @ [(''a9'', a)]) \<and>
        id' a = ''a9'' \<and> createdAt a = Some 5) \<and>
   (\<exists>a' m'. updateArticle example_store ''a1'' (summary_update ''S'') = Inr (a', m') \<and>
        id' a' = ''a1'' \<and> createdAt a' = Some 0 \<and> map_get m' ''a1'' = Some a')"
proof -
  have fresh: "''a9'' \<notin> fst ` set example_store"
    by (simp add: example_store_def)
  have g: "map_get example_store ''a1'' = Some (example_article ''a1'' bbc 100)"
    by (simp add: example_store_def)
  have p: "upd_id (summary_update ''S'') = None" "upd_createdAt (summary_update ''S'') = None"
    by (simp_all add: summary_update_def no_updates_def)
  have f: "id' (example_article ''a1'' bbc 100) = ''a1''"
          "createdAt (example_article ''a1'' bbc 100) = Some 0"
    by (simp_all add: example_article_def)
  note t = id_createdAt_preserved [OF example_store_ok, of "''a9''" 5 example_insert "''a1''"
             "summary_update ''S''"]
  from t fresh have c: "\<exists>a. createArticle ''a9'' 5 example_store example_insert = (a, example_store @ [(''a9'', a)]) \<and>
        id' a = ''a9'' \<and> createdAt a = Some 5"
    by blast
  from t g p obtain a' m' where
    "updateArticle example_store ''a1'' (summary_update ''S'') = Inr (a', m')"
    "id' a' = id' (example_article ''a1'' bbc 100)"
    "createdAt a' = createdAt (example_article ''a1'' bbc 100)"
    "map_get m' ''a1'' = Some a'"
    by blast
  with f have u: "\<exists>a' m'. updateArticle example_store ''a1'' (summary_update ''S'') = Inr (a', m') \<and>
        id' a' = ''a1'' \<and> createdAt a' = Some 0 \<and> map_get m' ''a1'' = Some a'"
    by auto
  show ?thesis using example_store_ok fresh g p c u by blast
qed

section \<open>Properties of the summarize-article route\<close>

lemma find_by_id:
  assumes ok: "store_ok m" and g: "map_get m i = Some a"
  shows "find (\<lambda>x. id' x = i) (getArticles m None) = Some a"
proof -
  have ain: "a \<in> set (getArticles m None)"
    using g by (simp add: set_getArticles passes_filters_def map_get_in_values)
  have ida: "id' a = i" using ok g by (rule store_ok_map_get)
  have inj: "inj_on id' (set (map_values m))"
    using store_ok_ids_distinct[OF ok] by (simp add: distinct_map)
  from ain ida have "find (\<lambda>x. id' x = i) (getArticles m None) \<noteq> None"
    by (auto simp: find_None_iff)
  then obtain x where f: "find (\<lambda>x. id' x = i) (getArticles m None) = Some x" by auto
  then have "id' x = i" and "x \<in> set (getArticles m None)"
    by (auto simp: find_Some_iff)
  then have "x \<in> set (map_values m)" by (simp add: set_getArticles)
  moreover have "a \<in> set (map_values m)" using g by (rule map_get_in_values)
  ultimately have "x = a" using inj \<open>id' x = i\<close> ida by (auto dest: inj_onD)
  with f show ?thesis by simp
qed

lemma summarizeArticle_result:
  "summarizeArticle ai t c sl =
     summary_of (ai ''gemini-2.5-flash''
       (summarize_prompt (case sl of None \<Rightarrow> medium | Some l \<Rightarrow> l) t c))"
  by (simp add: summarizeArticle_def summary_of_def response_text_or_def or_default_def Let_def
        split: engine_result.splits option.splits)

text \<open>
  C3 (as amended).  For every article stored under its id and every engine, the route
  answers 200 with the updated article and a summary, the stored \<open>aiSummary\<close> is that
  summary, and no other record changes.  The summary is
  \<open>"Summary unavailable due to processing error"\<close> when the engine call throws,
  \<open>"Unable to generate summary"\<close> when the response has no text or only white space, and
  the trimmed text otherwise (\<open>summary_of\<close>).
\<close>

theorem summarize_article_absorbs_failure:
  assumes ok: "store_ok m" and g: "map_get m i = Some a"
    and r: "ai ''gemini-2.5-flash''
              (summarize_prompt (case sl of None \<Rightarrow> medium | Some l \<Rightarrow> l) (title a)
                 (or_default (js_or (content a) (description a)) [])) = r"
  shows "\<exists>updated m'.
           summarize_article_route (Some ai) m i sl = (Status200 updated (summary_of r), m') \<and>
           aiSummary updated = Some (summary_of r) \<and>
           map_get m' i = Some updated \<and>
           (\<forall>k. k \<noteq> i \<longrightarrow> map_get m' k = map_get m k)"
proof -
  let ?p = "no_updates\<lparr>upd_aiSummary := Some (Some (summary_of r))\<rparr>"
  have s: "summarizeArticle ai (title a) (or_default (js_or (content a) (description a)) []) sl
             = summary_of r"
    using r by (simp add: summarizeArticle_result)
  have u: "updateArticle m i ?p = Inr (merge_updates a ?p, map_set i (merge_updates a ?p) m)"
    using g by (simp add: updateArticle_def Let_def)
  have route: "summarize_article_route (Some ai) m i sl =
          (Status200 (merge_updates a ?p) (summary_of r), map_set i (merge_updates a ?p) m)"
    by (simp add: summarize_article_route_def find_by_id[OF ok g] s u Let_def)
  have ai: "aiSummary (merge_updates a ?p) = Some (summary_of r)"
    by (simp add: merge_updates_def spread_def no_updates_def)
  show ?thesis
    using route ai
    by (intro exI[of _ "merge_updates a ?p"] exI[of _ "map_set i (merge_updates a ?p) m"])
       (simp add: map_get_map_set)
qed

theorem summarize_article_absorbs_failure_witness:
  "store_ok example_store \<and>
   map_get example_store ''a1'' = Some (example_article ''a1'' bbc 100) \<and>
   (\<exists>updated m'.
      summarize_article_route (Some failing_engine) example_store ''a1'' None =
        (Status200 updated ''Summary unavailable due to processing error'', m') \<and>
      aiSummary updated = Some ''Summary unavailable due to processing error'' \<and>
      map_get m' ''a1'' = Some updated)"
proof -
  have g: "map_get example_store ''a1'' = Some (example_article ''a1'' bbc 100)"
    by (simp add: example_store_def)
  have s: "summary_of Threw = ''Summary unavailable due to processing error''"
    by (simp add: summary_of_def)
  from summarize_article_absorbs_failure [OF example_store_ok g, of failing_engine None Threw]
  show ?thesis
    using example_store_ok g by (simp add: failing_engine_def s) blast
qed

text \<open>
  An engine that answers without text: the summary is not the string used for a thrown
  error.
\<close>

theorem summarize_article_empty_response:
  "fst (summarize_article_route (Some empty_engine) example_store ''a1'' None) =
     Status200 (example_article ''a1'' bbc 100\<lparr>aiSummary := Some ''Unable to generate summary''\<rparr>)
       ''Unable to generate summary'' \<and>
   ''Unable to generate summary'' \<noteq> ''Summary unavailable due to processing error''"
  by (simp add: summarize_article_route_def getArticles_def example_store_def map_values_def
        example_article_def by_published_desc_def summarizeArticle_def empty_engine_def
        response_text_or_def or_default_def updateArticle_def merge_updates_def spread_def
        no_updates_def Let_def)

text \<open>
  C8.  When no stored article carries the requested id, the route answers 404
  \<open>"Article not found"\<close> and hands back the article map unchanged: nothing is created or
  updated.  The 404 is the answer of a constructed service; without the service every
  request is answered 500 before the lookup, and the map is unchanged as well.
\<close>

theorem summarize_unknown_id_not_found:
  assumes "\<forall>a \<in> set (map_values m). id' a \<noteq> i"
  shows "summarize_article_route (Some ai) m i sl = (Status404 ''Article not found'', m) \<and>
         snd (summarize_article_route None m i sl) = m"
proof -
  have "find (\<lambda>a. id' a = i) (getArticles m None) = None"
    using assms by (auto simp: find_None_iff set_getArticles)
  then show ?thesis by (simp add: summarize_article_route_def)
qed

theorem summarize_unknown_id_not_found_witness:
  "''missing'' \<notin> set (map id' (map_values example_store)) \<and>
   summarize_article_route (Some failing_engine) example_store ''missing'' None =
     (Status404 ''Article not found'', example_store)"
proof -
  have h: "\<forall>a \<in> set (map_values example_store). id' a \<noteq> ''missing''"
    by (simp add: example_store_def map_values_def example_article_def)
  have n: "''missing'' \<notin> set (map id' (map_values example_store))"
    by (simp add: example_store_def map_values_def example_article_def)
  from summarize_unknown_id_not_found [OF h] n show ?thesis by simp
qed

text \<open>The same for a key that is not in a map whose records sit under their own ids.\<close>

lemma unknown_key_not_found:
  assumes "store_ok m" and "map_get m i = None"
  shows "summarize_article_route (Some ai) m i sl = (Status404 ''Article not found'', m)"
proof -
  have "map_get m i = None \<Longrightarrow> i \<notin> set (map fst m)"
    by (induction m) (force split: if_splits)+
  with assms have "i \<notin> set (map id' (map_values m))" by (simp add: store_ok_ids)
  then have "find (\<lambda>a. id' a = i) (getArticles m None) = None"
    by (auto simp: find_None_iff set_getArticles)
  then show ?thesis by (simp add: summarize_article_route_def)
qed

section \<open>Properties of the topic summary\<close>

lemma or_default_label: "or_default (ta_source_name a) ''Unknown Source'' = source_label a"
  by (auto simp: or_default_def ta_source_name_def source_label_def truthy_def
        split: option.splits)

lemma sourceLinks_map:
  "sourceLinks (generateTopicSummary ai topic articles) =
     map (\<lambda>a. \<lparr>sl_title = ta_title a, sl_url = ta_url a, sl_source = source_label a\<rparr>) articles"
  by (simp add: generateTopicSummary_def or_default_label split: engine_result.splits)

text \<open>
  C4.  For every engine, topic and article list, \<open>sourceLinks\<close> has one entry per input
  article, in the input order; entry \<open>i\<close> holds the title and the url of article \<open>i\<close> and
  its source name, or \<open>"Unknown Source"\<close> when the source or its name is missing or empty.
  The list is the same when the engine call throws.
\<close>

theorem sourceLinks_one_per_article:
  "length (sourceLinks (generateTopicSummary ai topic articles)) = length articles \<and>
   (\<forall>i < length articles.
      sourceLinks (generateTopicSummary ai topic articles) ! i =
        \<lparr>sl_title = ta_title (articles ! i), sl_url = ta_url (articles ! i),
         sl_source = source_label (articles ! i)\<rparr>) \<and>
   sourceLinks (generateTopicSummary failing_engine topic articles) =
     sourceLinks (generateTopicSummary ai topic articles)"
  by (simp add: sourceLinks_map)

theorem sourceLinks_one_per_article_witness:
  "generateTopicSummary failing_engine ''inflation'' example_topic_articles =
     \<lparr>summary = ''Unable to generate topic summary due to processing error'',
      sourceLinks =
        [\<lparr>sl_title = ''Prices rise'', sl_url = ''https://example.org/1'', sl_source = ''BBC News''\<rparr>,
         \<lparr>sl_title = ''Rates hold'', sl_url = ''https://example.org/2'', sl_source = ''Unknown Source''\<rparr>,
         \<lparr>sl_title = ''Wages'', sl_url = ''https://example.org/3'', sl_source = ''Unknown Source''\<rparr>]\<rparr>"
proof -
  have l: "map source_label example_topic_articles = [''BBC News'', ''Unknown Source'', ''Unknown Source'']"
    by (simp add: example_topic_articles_def source_label_def bbc_def unnamed_source_def truthy_def)
  have n: "length example_topic_articles = 3"
    by (simp add: example_topic_articles_def)
  have s: "summary (generateTopicSummary failing_engine ''inflation'' example_topic_articles) =
      ''Unable to generate topic summary due to processing error''"
    by (simp add: generateTopicSummary_def failing_engine_def)
  from sourceLinks_one_per_article [of failing_engine "''inflation''" example_topic_articles]
  have "length (sourceLinks (generateTopicSummary failing_engine ''inflation'' example_topic_articles)) = 3"
    and "\<forall>i<3. sourceLinks (generateTopicSummary failing_engine ''inflation'' example_topic_articles) ! i =
        \<lparr>sl_title = ta_title (example_topic_articles ! i), sl_url = ta_url (example_topic_articles ! i),
         sl_source = source_label (example_topic_articles ! i)\<rparr>"
    by (simp_all add: n)
  then have "sourceLinks (generateTopicSummary failing_engine ''inflation'' example_topic_articles) =
     map (\<lambda>a. \<lparr>sl_title = ta_title a, sl_url = ta_url a, sl_source = source_label a\<rparr>) example_topic_articles"
    by (intro nth_equalityI) (simp_all add: n)
  then have "sourceLinks (generateTopicSummary failing_engine ''inflation'' example_topic_articles) =
        [\<lparr>sl_title = ''Prices rise'', sl_url = ''https://example.org/1'', sl_source = ''BBC News''\<rparr>,
         \<lparr>sl_title = ''Rates hold'', sl_url = ''https://example.org/2'', sl_source = ''Unknown Source''\<rparr>,
         \<lparr>sl_title = ''Wages'', sl_url = ''https://example.org/3'', sl_source = ''Unknown Source''\<rparr>]"
    using l by (simp add: example_topic_articles_def)
  with s show ?thesis
    by (cases "generateTopicSummary failing_engine ''inflation'' example_topic_articles") simp
qed

section \<open>Properties of validation and of the provider request\<close>

lemma parse_fields:
  assumes "newsFiltersSchema_parse r = Inr f"
  shows "z_pageSize (q_pageSize r) = Inr (nf_pageSize f)"
    and "z_page (q_page r) = Inr (nf_page f)"
    and "z_sources (q_sources r) = Inr (nf_sources f)"
  using assms
  by (auto simp: newsFiltersSchema_parse_def Let_def issue_at_def parsed_def
        split: if_splits sum.splits)

lemma parse_issue_pageSize:
  "z_pageSize (q_pageSize r) = Inl e \<Longrightarrow>
   \<exists>issues. newsFiltersSchema_parse r = Inl (ZodError issues) \<and> (''pageSize'', e) \<in> set issues"
  by (simp add: newsFiltersSchema_parse_def Let_def issue_at_def)

lemma parse_issue_page:
  "z_page (q_page r) = Inl e \<Longrightarrow>
   \<exists>issues. newsFiltersSchema_parse r = Inl (ZodError issues) \<and> (''page'', e) \<in> set issues"
  by (simp add: newsFiltersSchema_parse_def Let_def issue_at_def)

lemma z_pageSize_accepts: "z_pageSize v = Inr w \<Longrightarrow> w = v"
  by (auto simp: z_pageSize_def split: option.splits js_number.splits if_splits)

lemma z_page_accepts: "z_page v = Inr w \<Longrightarrow> w = v"
  by (auto simp: z_page_def split: option.splits js_number.splits if_splits)

lemma map_get_set_if_truthy:
  "map_get (set_if_truthy k v params) k' =
     (if k' = k \<and> truthy v then v else map_get params k')"
  by (auto simp: set_if_truthy_def truthy_def map_get_map_set split: option.splits)

lemma map_get_set_if_number:
  "map_get (set_if_number ts k v params) k' =
     (case v of Some n \<Rightarrow> if k' = k \<and> number_truthy n then Some (ts n) else map_get params k'
      | None \<Rightarrow> map_get params k')"
  by (auto simp: set_if_number_def map_get_map_set split: option.splits)

lemma map_get_set_sources:
  "map_get (set_sources v params) k' =
     (case v of Some srcs \<Rightarrow> if k' = ''sources'' \<and> srcs \<noteq> [] then Some (join '','' srcs)
                              else map_get params k'
      | None \<Rightarrow> map_get params k')"
  by (auto simp: set_sources_def map_get_map_set split: option.splits)

lemmas params_get = map_get_set_if_truthy map_get_set_if_number map_get_set_sources map_get_map_set

lemma absent_number_not_sent:
  "nf_pageSize f = None \<Longrightarrow> map_get (fetchTopHeadlines ts f) ''pageSize'' = None"
  "nf_pageSize f = None \<Longrightarrow> map_get (searchEverything ts f) ''pageSize'' = None"
  "nf_page f = None \<Longrightarrow> map_get (fetchTopHeadlines ts f) ''page'' = None"
  "nf_page f = None \<Longrightarrow> map_get (searchEverything ts f) ''page'' = None"
  by (simp_all add: fetchTopHeadlines_def searchEverything_def Let_def params_get
        split: option.splits)

text \<open>
  A query without \<open>pageSize\<close> and \<open>page\<close> parses to filters without them, and neither
  provider request carries a page parameter.
\<close>

theorem parse_no_page_defaults:
  "newsFiltersSchema_parse empty_query = Inr no_filters \<and>
   nf_pageSize no_filters = None \<and> nf_page no_filters = None \<and>
   news_request whole_number_toString empty_query = Inr [(''country'', ''us'')] \<and>
   search_request whole_number_toString empty_query = Inr [(''q'', ''technology'')]"
  by (simp add: news_request_def search_request_def newsFiltersSchema_parse_def empty_query_def
        no_filters_def z_string_optional_def z_sources_def z_sortBy_def z_pageSize_def
        z_page_def issue_at_def parsed_def fetchTopHeadlines_def searchEverything_def
        set_if_truthy_def set_if_number_def set_sources_def truthy_def Let_def)

text \<open>
  C5 (as amended).  A \<open>pageSize\<close> that is not a number from 1 to 100 and a \<open>page\<close> that
  is not a number of at least 1 are rejected with a \<open>ZodError\<close> naming the field.  Accepted
  values are passed on as they are, and an absent value stays absent: no default is filled
  in and neither provider request carries the parameter.
\<close>

theorem pageSize_page_rejected_not_defaulted:
  "(\<forall>n. q_pageSize r = Some n \<and> (\<forall>x. n = Finite x \<longrightarrow> x < 1 \<or> 100 < x) \<longrightarrow>
        (\<exists>issues e. newsFiltersSchema_parse r = Inl (ZodError issues) \<and>
                     (''pageSize'', e) \<in> set issues)) \<and>
   (\<forall>n. q_page r = Some n \<and> n \<noteq> Infinity \<and> (\<forall>x. n = Finite x \<longrightarrow> x < 1) \<longrightarrow>
        (\<exists>issues e. newsFiltersSchema_parse r = Inl (ZodError issues) \<and>
                     (''page'', e) \<in> set issues)) \<and>
   (\<forall>f. newsFiltersSchema_parse r = Inr f \<longrightarrow>
        nf_pageSize f = q_pageSize r \<and> nf_page f = q_page r \<and>
        (q_pageSize r = None \<longrightarrow>
           map_get (fetchTopHeadlines ts f) ''pageSize'' = None \<and>
           map_get (searchEverything ts f) ''pageSize'' = None) \<and>
        (q_page r = None \<longrightarrow>
           map_get (fetchTopHeadlines ts f) ''page'' = None \<and>
           map_get (searchEverything ts f) ''page'' = None))"
proof (intro conjI allI impI)
  fix n assume "q_pageSize r = Some n \<and> (\<forall>x. n = Finite x \<longrightarrow> x < 1 \<or> 100 < x)"
  then have "\<exists>e. z_pageSize (q_pageSize r) = Inl e"
    by (cases n) (auto simp: z_pageSize_def)
  then show "\<exists>issues e. newsFiltersSchema_parse r = Inl (ZodError issues) \<and>
                     (''pageSize'', e) \<in> set issues"
    using parse_issue_pageSize by blast
next
  fix n assume "q_page r = Some n \<and> n \<noteq> Infinity \<and> (\<forall>x. n = Finite x \<longrightarrow> x < 1)"
  then have "\<exists>e. z_page (q_page r) = Inl e"
    by (cases n) (auto simp: z_page_def)
  then show "\<exists>issues e. newsFiltersSchema_parse r = Inl (ZodError issues) \<and>
                     (''page'', e) \<in> set issues"
    using parse_issue_page by blast
next
  fix f assume p: "newsFiltersSchema_parse r = Inr f"
  show s: "nf_pageSize f = q_pageSize r"
    using parse_fields(1)[OF p] by (rule z_pageSize_accepts)
  show g: "nf_page f = q_page r"
    using parse_fields(2)[OF p] by (rule z_page_accepts)
  { assume "q_pageSize r = None"
    with s have n: "nf_pageSize f = None" by simp
    show "map_get (fetchTopHeadlines ts f) ''pageSize'' = None"
      using n by (rule absent_number_not_sent)
    show "map_get (searchEverything ts f) ''pageSize'' = None"
      using n by (rule absent_number_not_sent) }
  { assume "q_page r = None"
    with g have n: "nf_page f = None" by simp
    show "map_get (fetchTopHeadlines ts f) ''page'' = None"
      using n by (rule absent_number_not_sent)
    show "map_get (searchEverything ts f) ''page'' = None"
      using n by (rule absent_number_not_sent) }
qed

theorem pageSize_page_rejected_not_defaulted_witness:
  "q_pageSize out_of_range_query = Some (Finite 101) \<and>
   q_page out_of_range_query = Some (Finite 0) \<and>
   (\<exists>issues e. newsFiltersSchema_parse out_of_range_query = Inl (ZodError issues) \<and>
                (''pageSize'', e) \<in> set issues) \<and>
   (\<exists>issues e. newsFiltersSchema_parse out_of_range_query = Inl (ZodError issues) \<and>
                (''page'', e) \<in> set issues) \<and>
   newsFiltersSchema_parse empty_query = Inr no_filters \<and>
   q_pageSize empty_query = None \<and> q_page empty_query = None \<and>
   nf_pageSize no_filters = None \<and> nf_page no_filters = None \<and>
   map_get (fetchTopHeadlines whole_number_toString no_filters) ''pageSize'' = None \<and>
   map_get (searchEverything whole_number_toString no_filters) ''page'' = None"
proof -
  have a: "q_pageSize out_of_range_query = Some (Finite 101)"
    and b: "q_page out_of_range_query = Some (Finite 0)"
    by (simp_all add: out_of_range_query_def empty_query_def)
  have c: "newsFiltersSchema_parse empty_query = Inr no_filters"
    by (simp add: newsFiltersSchema_parse_def empty_query_def
        no_filters_def z_string_optional_def z_sources_def z_sortBy_def z_pageSize_def
        z_page_def issue_at_def parsed_def Let_def)
  have d: "q_pageSize empty_query = None" "q_page empty_query = None"
    by (simp_all add: empty_query_def)
  note t1 = pageSize_page_rejected_not_defaulted [of out_of_range_query whole_number_toString]
  note t2 = pageSize_page_rejected_not_defaulted [of empty_query whole_number_toString]
  from t1 a have e: "\<exists>issues e. newsFiltersSchema_parse out_of_range_query = Inl (ZodError issues) \<and>
                (''pageSize'', e) \<in> set issues"
    by simp
  from t1 b have f: "\<exists>issues e. newsFiltersSchema_parse out_of_range_query = Inl (ZodError issues) \<and>
                (''page'', e) \<in> set issues"
    by simp
  from t2 c d have g: "nf_pageSize no_filters = None \<and> nf_page no_filters = None \<and>
   map_get (fetchTopHeadlines whole_number_toString no_filters) ''pageSize'' = None \<and>
   map_get (searchEverything whole_number_toString no_filters) ''page'' = None"
    by simp
  show ?thesis using a b c d e f g by blast
qed

lemma fetchTopHeadlines_country:
  "map_get (fetchTopHeadlines ts f) ''country'' =
     (if truthy (nf_country f) then nf_country f
      else if nf_sources f = None then Some ''us'' else None)"
  by (simp add: fetchTopHeadlines_def Let_def params_get split: option.splits)

lemma searchEverything_q:
  "map_get (searchEverything ts f) ''q'' =
     (if truthy (nf_q f) then nf_q f
      else if nf_sources f = None \<or> nf_sources f = Some [] then Some ''technology'' else None)"
  by (simp add: searchEverything_def Let_def params_get split: option.splits)

text \<open>
  C6.  The query \<open>?sources=\<close> parses to an empty sources array.  \<open>fetchTopHeadlines\<close>
  tests \<open>!filters.sources\<close>, which is false for an empty array, so the headlines request
  carries no country (and no other parameter), although neither sources nor a country
  were given; \<open>searchEverything\<close> tests the length as well and falls back to its query.
\<close>

theorem headlines_empty_sources_no_country:
  "newsFiltersSchema_parse empty_sources_query = Inr empty_sources_filters \<and>
   news_request whole_number_toString empty_sources_query = Inr [] \<and>
   fetchTopHeadlines whole_number_toString empty_sources_filters = [] \<and>
   searchEverything whole_number_toString empty_sources_filters = [(''q'', ''technology'')]"
  by (simp add: news_request_def newsFiltersSchema_parse_def empty_sources_query_def
        empty_sources_filters_def empty_query_def
        no_filters_def z_string_optional_def z_sources_def z_sortBy_def z_pageSize_def
        z_page_def issue_at_def parsed_def fetchTopHeadlines_def searchEverything_def
        set_if_truthy_def set_if_number_def set_sources_def truthy_def Let_def trim_def)

text \<open>
  C10.  There are filters with a present but empty sources list, no country and no query
  for which the headlines request has no \<open>country\<close> parameter at all while the search
  request has \<open>q = technology\<close>.
\<close>

theorem empty_sources_treated_differently:
  "\<exists>f. nf_sources f = Some [] \<and> nf_country f = None \<and> nf_q f = None \<and>
       map_get (fetchTopHeadlines ts f) ''country'' = None \<and>
       ''country'' \<notin> fst ` set (fetchTopHeadlines ts f) \<and>
       map_get (searchEverything ts f) ''q'' = Some ''technology''"
proof (intro exI[of _ empty_sources_filters] conjI)
  show "map_get (fetchTopHeadlines ts empty_sources_filters) ''country'' = None"
    by (simp add: fetchTopHeadlines_country empty_sources_filters_def no_filters_def truthy_def)
  show "''country'' \<notin> fst ` set (fetchTopHeadlines ts empty_sources_filters)"
    by (simp add: fetchTopHeadlines_def empty_sources_filters_def no_filters_def Let_def
          set_if_truthy_def set_if_number_def set_sources_def truthy_def)
  show "map_get (searchEverything ts empty_sources_filters) ''q'' = Some ''technology''"
    by (simp add: searchEverything_q empty_sources_filters_def no_filters_def truthy_def)
qed (simp_all add: empty_sources_filters_def no_filters_def)

section \<open>Properties of the voice command\<close>

lemma loop_no_match:
  "(\<forall>p \<in> set ps. \<not> startsWith lower p) \<Longrightarrow> strip_prefix_loop ps lower command = command"
  by (induction ps) auto

lemma loop_first_match:
  "i < length ps \<Longrightarrow> startsWith lower (ps ! i) \<Longrightarrow> (\<forall>j < i. \<not> startsWith lower (ps ! j)) \<Longrightarrow>
   strip_prefix_loop ps lower command = trim (drop (length (ps ! i)) command)"
proof (induction ps arbitrary: i)
  case Nil
  then show ?case by simp
next
  case (Cons p ps)
  show ?case
  proof (cases i)
    case 0
    with Cons.prems show ?thesis by (simp add: substring_def)
  next
    case (Suc k)
    with Cons.prems have "\<not> startsWith lower p" by auto
    moreover have "strip_prefix_loop ps lower command = trim (drop (length (ps ! k)) command)"
    proof (rule Cons.IH)
      show "k < length ps" using Cons.prems Suc by simp
      show "startsWith lower (ps ! k)" using Cons.prems Suc by simp
      show "\<forall>j<k. \<not> startsWith lower (ps ! j)"
      proof (intro allI impI)
        fix j assume "j < k"
        then have "Suc j < i" using Suc by simp
        with Cons.prems(3) have "\<not> startsWith lower ((p # ps) ! Suc j)" by blast
        then show "\<not> startsWith lower (ps ! j)" by simp
      qed
    qed
    ultimately show ?thesis using Suc by simp
  qed
qed

text \<open>
  C9.  For every raw transcript, with the phrase being the trimmed transcript that
  \<open>onResult\<close> hands over: the first prefix in list order that the lower-cased phrase
  starts with is cut off the phrase as spoken and the rest is trimmed; without a matching
  prefix the phrase itself is the query; an empty query calls nothing; a non-empty query
  of a final transcript is passed to \<open>onSearch\<close> when there is one.
\<close>

theorem voice_command_normalized:
  "(\<forall>i < length prefixes.
      startsWith (toLowerCase (trim raw)) (prefixes ! i) \<and>
      (\<forall>j < i. \<not> startsWith (toLowerCase (trim raw)) (prefixes ! j)) \<longrightarrow>
      searchQuery (trim raw) = trim (drop (length (prefixes ! i)) (trim raw))) \<and>
   ((\<forall>p \<in> set prefixes. \<not> startsWith (toLowerCase (trim raw)) p) \<longrightarrow>
      searchQuery (trim raw) = trim raw) \<and>
   (searchQuery (trim raw) = [] \<longrightarrow> onResult onSearch isFinal raw = None) \<and>
   (searchQuery (trim raw) \<noteq> [] \<and> onSearch \<and> isFinal \<longrightarrow>
      onResult onSearch isFinal raw = Some (searchQuery (trim raw)))"
proof (intro conjI allI impI)
  fix i
  assume "i < length prefixes"
    and "startsWith (toLowerCase (trim raw)) (prefixes ! i) \<and>
         (\<forall>j < i. \<not> startsWith (toLowerCase (trim raw)) (prefixes ! j))"
  then show "searchQuery (trim raw) = trim (drop (length (prefixes ! i)) (trim raw))"
    unfolding searchQuery_def by (intro loop_first_match) auto
next
  assume "\<forall>p \<in> set prefixes. \<not> startsWith (toLowerCase (trim raw)) p"
  then show "searchQuery (trim raw) = trim raw"
    unfolding searchQuery_def by (rule loop_no_match)
next
  assume "searchQuery (trim raw) = []"
  then show "onResult onSearch isFinal raw = None"
    by (simp add: onResult_def processVoiceCommand_def)
next
  assume h: "searchQuery (trim raw) \<noteq> [] \<and> onSearch \<and> isFinal"
  have "trim raw \<noteq> []"
  proof
    assume e: "trim raw = []"
    have "searchQuery [] = []"
      by (simp add: searchQuery_def prefixes_def toLowerCase_def startsWith_def)
    with e h show False by simp
  qed
  with h show "onResult onSearch isFinal raw = Some (searchQuery (trim raw))"
    by (simp add: onResult_def processVoiceCommand_def)
qed

theorem voice_command_normalized_witness:
  "onResult True True ''Show me technology news from USA'' = Some ''technology news from USA'' \<and>
   onResult True True ''latest headlines'' = Some ''latest headlines'' \<and>
   onResult True True ''find '' = None"
proof -
  let ?a = "''Show me technology news from USA''"
  let ?b = "''latest headlines''"
  let ?c = "''find ''"
  have ta: "trim ?a = ?a" and tb: "trim ?b = ?b" and tc: "trim ?c = ''find''"
    by code_simp+
  have n: "length prefixes = 6" by (simp add: prefixes_def)
  have a0: "\<not> startsWith (toLowerCase ?a) (prefixes ! 0)"
    and a1: "\<not> startsWith (toLowerCase ?a) (prefixes ! 1)"
    and a2: "startsWith (toLowerCase ?a) (prefixes ! 2)"
    by code_simp+
  have a3: "trim (drop (length (prefixes ! 2)) ?a) = ''technology news from USA''"
    by code_simp
  have lt2: "\<And>j::nat. j < 2 \<longleftrightarrow> j = 0 \<or> j = 1" by auto
  have a01: "\<forall>j<2. \<not> startsWith (toLowerCase ?a) (prefixes ! j)"
    using a0 a1 by (simp add: lt2)
  have "\<forall>i < length prefixes.
      startsWith (toLowerCase ?a) (prefixes ! i) \<and>
      (\<forall>j < i. \<not> startsWith (toLowerCase ?a) (prefixes ! j)) \<longrightarrow>
      searchQuery ?a = trim (drop (length (prefixes ! i)) ?a)"
    using voice_command_normalized [of ?a True True] by (simp add: ta)
  then have "2 < length prefixes \<longrightarrow>
      startsWith (toLowerCase ?a) (prefixes ! 2) \<and>
      (\<forall>j < 2. \<not> startsWith (toLowerCase ?a) (prefixes ! j)) \<longrightarrow>
      searchQuery ?a = trim (drop (length (prefixes ! 2)) ?a)"
    by (rule spec)
  with n a2 a01 a3 have qa: "searchQuery ?a = ''technology news from USA''"
    by simp
  have b0: "\<forall>p \<in> set prefixes. \<not> startsWith (toLowerCase ?b) p"
    by code_simp
  have qb: "searchQuery ?b = ?b"
    using voice_command_normalized [of ?b True True] b0 by (simp add: tb)
  have qc: "searchQuery ''find'' = []" by code_simp
  have ra: "onResult True True ?a = Some ''technology news from USA''"
    using voice_command_normalized [of ?a True True] qa by (simp add: ta)
  have rb: "onResult True True ?b = Some ?b"
    using voice_command_normalized [of ?b True True] qb by (simp add: tb)
  have rc: "onResult True True ?c = None"
    using voice_command_normalized [of ?c True True] qc by (simp add: tc)
  show ?thesis using ra rb rc by simp
qed

end
